theory Spec2Isabelle
  imports Complex_Main "HOL-Library.Log_Nat" "HOL-Library.Sublist"
    "HOL-Library.Char_ord" "HOL-Library.List_Lexorder"
begin

section \<open>The values the engine sees\<close>

text \<open>
  The engine of go-fq receives records and query literals as Go \<^verbatim>\<open>interface{}\<close>
  values and inspects them with type switches and the \<^verbatim>\<open>reflect\<close> package. The
  model keeps, for every value, what those inspections read: the dynamic type, its
  \<^verbatim>\<open>reflect.Kind\<close>, whether a reference is nil, and the contents.
\<close>

datatype kind =
    KInvalid | KBool
  | KInt | KInt8 | KInt16 | KInt32 | KInt64
  | KUint | KUint8 | KUint16 | KUint32 | KUint64 | KUintptr
  | KFloat32 | KFloat64 | KComplex64 | KComplex128
  | KArray | KChan | KFunc | KInterface | KMap | KPointer | KSlice
  | KString | KStruct | KUnsafePointer

text \<open>The integer and the floating types of Go.\<close>

datatype ikind =
    intT | int8T | int16T | int32T | int64T
  | uintT | uint8T | uint16T | uint32T | uint64T | uintptrT

datatype fkind = float32T | float64T

text \<open>
  A floating value is modelled by the extended real it denotes: a finite value is
  \<open>Fin r\<close> for the rational \<open>r\<close> (both zeros are \<open>Fin 0\<close>: they are
  equal under \<^verbatim>\<open>==\<close> and \<^verbatim>\<open><\<close>, the only operations the engine
  applies). The comparisons are those of IEEE 754: every comparison with NaN is false.
\<close>

datatype f64 = NaN | NegInf | Fin rat | PosInf

fun f64_eq :: "f64 \<Rightarrow> f64 \<Rightarrow> bool" where
  "f64_eq NaN _ = False"
| "f64_eq _ NaN = False"
| "f64_eq x y = (x = y)"

fun f64_lt :: "f64 \<Rightarrow> f64 \<Rightarrow> bool" where
  "f64_lt NaN _ = False"
| "f64_lt _ NaN = False"
| "f64_lt PosInf _ = False"
| "f64_lt _ NegInf = False"
| "f64_lt NegInf _ = True"
| "f64_lt _ PosInf = True"
| "f64_lt (Fin x) (Fin y) = (x < y)"

text \<open>
  The conversion \<^verbatim>\<open>float64(n)\<close> of an integer rounds to the nearest value with a
  significand of 53 bits, ties to even. No 64-bit integer overflows the exponent range.
\<close>

definition round_nearest_even :: "nat \<Rightarrow> int \<Rightarrow> int" where
  "round_nearest_even p n =
     (let a = \<bar>n\<bar>; sh = nat (bitlen a - int p) in
      if sh = 0 then n
      else let q = a div 2 ^ sh; r = a mod 2 ^ sh; half = 2 ^ (sh - 1);
               q' = (if half < r \<or> (r = half \<and> odd q) then q + 1 else q)
           in sgn n * (q' * 2 ^ sh))"

definition float64_of_int :: "int \<Rightarrow> f64" where
  "float64_of_int n = Fin (of_int (round_nearest_even 53 n))"

text \<open>
  The values. Slices are \<^verbatim>\<open>[]interface{}\<close>. \<open>MapV\<close> and \<open>NilMapV\<close> are
  the maps \<^verbatim>\<open>map[string]interface{}\<close> (an association list with distinct keys);
  \<open>KeyMapV\<close> and \<open>NilKeyMapV\<close> are the maps whose key type is one to which a
  string is not assignable, such as \<^verbatim>\<open>map[int]string\<close>. A struct is a named
  struct type with the fields that a lookup by name resolves, each with the value it
  holds (the declared fields in their order, then the fields promoted from embedded
  structs), and the names of the fields that are promoted through an embedded pointer
  that is nil; all these names are distinct. A pointer carries its address and the
  value it points to, a \<^verbatim>\<open>time.Time\<close> is its instant in nanoseconds (location
  and monotonic reading are not modelled). Function values here are values that are
  not predicates of the engine (those are queries, below); functions and channels
  carry an identity. Named non-struct types, arrays, complex numbers and maps with an
  interface key type are outside the model.
\<close>

datatype val =
    NilV
  | BoolV bool
  | IntegerV ikind int
  | FloatV fkind f64
  | StringV string
  | TimeV int
  | SliceV "val list"
  | NilSliceV
  | MapV "(string \<times> val) list"
  | NilMapV
  | KeyMapV "(val \<times> val) list"
  | NilKeyMapV
  | StructV string "(string \<times> val) list" "string list"
  | PtrV nat val
  | NilPtrV
  | FuncV nat
  | NilFuncV
  | ChanV nat
  | NilChanV

fun ikind_kind :: "ikind \<Rightarrow> kind" where
  "ikind_kind intT = KInt"
| "ikind_kind int8T = KInt8"
| "ikind_kind int16T = KInt16"
| "ikind_kind int32T = KInt32"
| "ikind_kind int64T = KInt64"
| "ikind_kind uintT = KUint"
| "ikind_kind uint8T = KUint8"
| "ikind_kind uint16T = KUint16"
| "ikind_kind uint32T = KUint32"
| "ikind_kind uint64T = KUint64"
| "ikind_kind uintptrT = KUintptr"

text \<open>\<^verbatim>\<open>reflect.ValueOf(v).Kind()\<close>; the zero Value of the nil interface is Invalid.\<close>

fun kind_of :: "val \<Rightarrow> kind" where
  "kind_of NilV = KInvalid"
| "kind_of (BoolV _) = KBool"
| "kind_of (IntegerV k _) = ikind_kind k"
| "kind_of (FloatV float32T _) = KFloat32"
| "kind_of (FloatV float64T _) = KFloat64"
| "kind_of (StringV _) = KString"
| "kind_of (TimeV _) = KStruct"
| "kind_of (SliceV _) = KSlice"
| "kind_of NilSliceV = KSlice"
| "kind_of (MapV _) = KMap"
| "kind_of NilMapV = KMap"
| "kind_of (KeyMapV _) = KMap"
| "kind_of NilKeyMapV = KMap"
| "kind_of (StructV _ _ _) = KStruct"
| "kind_of (PtrV _ _) = KPointer"
| "kind_of NilPtrV = KPointer"
| "kind_of (FuncV _) = KFunc"
| "kind_of NilFuncV = KFunc"
| "kind_of (ChanV _) = KChan"
| "kind_of NilChanV = KChan"

text \<open>\<^verbatim>\<open>reflect.Value.IsNil\<close> on the kinds that have a nil.\<close>

fun IsNil :: "val \<Rightarrow> bool" where
  "IsNil NilSliceV = True"
| "IsNil NilMapV = True"
| "IsNil NilKeyMapV = True"
| "IsNil NilPtrV = True"
| "IsNil NilFuncV = True"
| "IsNil NilChanV = True"
| "IsNil _ = False"

text \<open>The dynamic type, as far as the model distinguishes types: the kind and, for
  struct kinds, the name of the type; the two sorts of map are told apart.\<close>

fun type_name :: "val \<Rightarrow> string" where
  "type_name (StructV n _ _) = n"
| "type_name (TimeV _) = ''time.Time''"
| "type_name (KeyMapV _) = ''map[K]V''"
| "type_name NilKeyMapV = ''map[K]V''"
| "type_name _ = []"

definition type_of :: "val \<Rightarrow> kind \<times> string" where
  "type_of v = (kind_of v, type_name v)"

subsection \<open>Equality of the language and of \<^verbatim>\<open>reflect.DeepEqual\<close>\<close>

text \<open>
  \<open>values_equal deep a b\<close> compares two values of one dynamic type: with
  \<open>deep\<close> it follows pointers and compares slices and maps by their contents, as
  \<^verbatim>\<open>reflect.DeepEqual\<close> does; without, pointers are compared by address, as
  \<^verbatim>\<open>==\<close> does. Non-nil functions are never equal.
\<close>

fun values_equal :: "bool \<Rightarrow> val \<Rightarrow> val \<Rightarrow> bool"
  and elems_equal :: "bool \<Rightarrow> val list \<Rightarrow> val list \<Rightarrow> bool"
  and fields_equal :: "bool \<Rightarrow> (string \<times> val) list \<Rightarrow> (string \<times> val) list \<Rightarrow> bool"
  and entries_equal :: "bool \<Rightarrow> (string \<times> val) list \<Rightarrow> (string \<times> val) list \<Rightarrow> bool"
  and key_entries_equal :: "bool \<Rightarrow> (val \<times> val) list \<Rightarrow> (val \<times> val) list \<Rightarrow> bool"
where
  "values_equal d NilV b = (b = NilV)"
| "values_equal d (BoolV x) b = (b = BoolV x)"
| "values_equal d (IntegerV k n) b = (b = IntegerV k n)"
| "values_equal d (FloatV k x) b = (case b of FloatV k' y \<Rightarrow> k = k' \<and> f64_eq x y | _ \<Rightarrow> False)"
| "values_equal d (StringV s) b = (b = StringV s)"
| "values_equal d (TimeV t) b = (b = TimeV t)"
| "values_equal d (SliceV xs) b = (case b of SliceV ys \<Rightarrow> elems_equal d xs ys | _ \<Rightarrow> False)"
| "values_equal d NilSliceV b = (b = NilSliceV)"
| "values_equal d (MapV m) b =
     (case b of MapV m' \<Rightarrow> length m = length m' \<and> entries_equal d m m' | _ \<Rightarrow> False)"
| "values_equal d NilMapV b = (b = NilMapV)"
| "values_equal d (KeyMapV m) b =
     (case b of KeyMapV m' \<Rightarrow> length m = length m' \<and> key_entries_equal d m m' | _ \<Rightarrow> False)"
| "values_equal d NilKeyMapV b = (b = NilKeyMapV)"
| "values_equal d (StructV n fs ps) b =
     (case b of StructV n' gs qs \<Rightarrow> n = n' \<and> fields_equal d fs gs \<and> ps = qs | _ \<Rightarrow> False)"
| "values_equal d (PtrV p x) b =
     (case b of PtrV p' y \<Rightarrow> p = p' \<or> (d \<and> values_equal d x y) | _ \<Rightarrow> False)"
| "values_equal d NilPtrV b = (b = NilPtrV)"
| "values_equal d (FuncV f) b = False"
| "values_equal d NilFuncV b = (b = NilFuncV)"
| "values_equal d (ChanV c) b = (b = ChanV c)"
| "values_equal d NilChanV b = (b = NilChanV)"
| "elems_equal d [] ys = (ys = [])"
| "elems_equal d (x # xs) ys =
     (case ys of [] \<Rightarrow> False | y # ys' \<Rightarrow> values_equal d x y \<and> elems_equal d xs ys')"
| "fields_equal d [] gs = (gs = [])"
| "fields_equal d (f # fs) gs =
     (case gs of [] \<Rightarrow> False
      | g # gs' \<Rightarrow> fst f = fst g \<and> values_equal d (snd f) (snd g) \<and> fields_equal d fs gs')"
| "entries_equal d [] m' = True"
| "entries_equal d (e # rest) m' =
     ((case map_of m' (fst e) of None \<Rightarrow> False | Some w \<Rightarrow> values_equal d (snd e) w)
      \<and> entries_equal d rest m')"
| "key_entries_equal d [] m' = True"
| "key_entries_equal d (e # rest) m' =
     ((case map_of m' (fst e) of None \<Rightarrow> False | Some w \<Rightarrow> values_equal d (snd e) w)
      \<and> key_entries_equal d rest m')"

definition deep_equal :: "val \<Rightarrow> val \<Rightarrow> bool" where
  "deep_equal a b = values_equal True a b"

text \<open>
  A type is comparable with \<^verbatim>\<open>==\<close> unless it is a slice, map or function type,
  or a struct type with such a field (a field has the type of the value it holds).
\<close>

fun comparable :: "val \<Rightarrow> bool"
  and comparable_fields :: "(string \<times> val) list \<Rightarrow> bool"
where
  "comparable (SliceV _) = False"
| "comparable NilSliceV = False"
| "comparable (MapV _) = False"
| "comparable NilMapV = False"
| "comparable (KeyMapV _) = False"
| "comparable NilKeyMapV = False"
| "comparable (FuncV _) = False"
| "comparable NilFuncV = False"
| "comparable (StructV _ fs _) = comparable_fields fs"
| "comparable _ = True"
| "comparable_fields [] = True"
| "comparable_fields (f # fs) = (comparable (snd f) \<and> comparable_fields fs)"

text \<open>A fault (a Go panic) is the text of the value the code panics with.\<close>

type_synonym panic = string

text \<open>
  \<^verbatim>\<open>a == b\<close> on two interface values: false when the dynamic types differ, a
  run-time panic when the common type is not comparable.
\<close>

definition go_eq :: "val \<Rightarrow> val \<Rightarrow> panic + bool" where
  "go_eq a b =
     (if type_of a \<noteq> type_of b then Inr False
      else if \<not> comparable a then Inl (''runtime error: comparing uncomparable type'')
      else Inr (values_equal False a b))"

section \<open>type\_utils.go\<close>

text \<open>toNumber converts numeric types to float64 (it does not parse strings). The
  type switch takes int, float64, float32, int64, int32, uint32 and uint64; the
  reflection fallback takes the remaining kinds Int8, Int16, Uint, Uint8, Uint16.\<close>

definition toNumber :: "val \<Rightarrow> f64 option" where
  "toNumber v =
     (if v = NilV then None
      else case v of
        IntegerV k n \<Rightarrow>
          if k \<in> {intT, int64T, int32T, uint32T, uint64T} then Some (float64_of_int n)
          else if kind_of v \<in> {KInt, KInt8, KInt16, KInt32, KInt64} then Some (float64_of_int n)
          else if kind_of v \<in> {KUint, KUint8, KUint16, KUint32, KUint64} then Some (float64_of_int n)
          else None
      | FloatV k x \<Rightarrow> Some x
      | _ \<Rightarrow> None)"

definition isNil :: "val \<Rightarrow> bool" where
  "isNil v =
     (if v = NilV then True
      else let kind = kind_of v in
        (kind = KPointer \<or> kind = KSlice \<or> kind = KMap \<or> kind = KInterface
           \<or> kind = KChan \<or> kind = KFunc) \<and> IsNil v)"

definition isUncomparable :: "kind \<Rightarrow> bool" where
  "isUncomparable k = (k = KSlice \<or> k = KMap \<or> k = KFunc)"

definition three_way :: "bool \<Rightarrow> bool \<Rightarrow> int" where
  "three_way lt gt = (if lt then - 1 else if gt then 1 else 0)"

text \<open>The fast paths of compareValues: a case of the type switch returns only when
  the other operand has the same type, otherwise control leaves the switch.\<close>

definition fast_path :: "val \<Rightarrow> val \<Rightarrow> int option" where
  "fast_path a b =
     (case a of
        IntegerV ka aVal \<Rightarrow>
          (case b of
             IntegerV kb bVal \<Rightarrow>
               if ka = intT \<and> kb = intT then Some (three_way (aVal < bVal) (bVal < aVal))
               else None
           | _ \<Rightarrow> None)
      | FloatV ka aVal \<Rightarrow>
          (case b of
             FloatV kb bVal \<Rightarrow>
               if ka = float64T \<and> kb = float64T
               then Some (three_way (f64_lt aVal bVal) (f64_lt bVal aVal))
               else None
           | _ \<Rightarrow> None)
      | StringV aVal \<Rightarrow>
          (case b of StringV bVal \<Rightarrow> Some (three_way (aVal < bVal) (bVal < aVal)) | _ \<Rightarrow> None)
      | TimeV aVal \<Rightarrow>
          (case b of TimeV bVal \<Rightarrow> Some (three_way (aVal < bVal) (bVal < aVal)) | _ \<Rightarrow> None)
      | _ \<Rightarrow> None)"

definition compareValues :: "val \<Rightarrow> val \<Rightarrow> int" where
  "compareValues a b =
     (if a = NilV \<and> b = NilV then 0
      else if a = NilV then - 1
      else if b = NilV then 1
      else case fast_path a b of
        Some r \<Rightarrow> r
      | None \<Rightarrow>
          (case (toNumber a, toNumber b) of
             (Some aNum, Some bNum) \<Rightarrow> three_way (f64_lt aNum bNum) (f64_lt bNum aNum)
           | _ \<Rightarrow> - 1))"

definition isEqual :: "val \<Rightarrow> val \<Rightarrow> panic + bool" where
  "isEqual a b =
     (if a = NilV \<or> b = NilV then Inr (a = b)
      else case (toNumber a, toNumber b) of
        (Some aNum, Some bNum) \<Rightarrow> Inr (f64_eq aNum bNum)
      | _ \<Rightarrow>
          if isUncomparable (kind_of a) \<or> isUncomparable (kind_of b) then Inr (deep_equal a b)
          else if kind_of a = kind_of b then go_eq a b
          else Inr (deep_equal a b))"

section \<open>The field accessor\<close>

text \<open>\<^verbatim>\<open>reflect.Value.Elem\<close> of a pointer; for a nil pointer it is the zero Value.\<close>

fun Elem :: "val \<Rightarrow> val" where
  "Elem (PtrV _ x) = x"
| "Elem _ = NilV"

text \<open>
  \<^verbatim>\<open>reflect.Value.MapIndex\<close> with a string key. On a map with string keys there
  is no entry for a missing key or a nil map. On a map whose key type does not accept
  a string the call panics, nil or not. On a value that is not a map it panics too
  (getField calls it on maps only).
\<close>

fun MapIndex :: "val \<Rightarrow> string \<Rightarrow> panic + val option" where
  "MapIndex (MapV m) key = Inr (map_of m key)"
| "MapIndex NilMapV key = Inr None"
| "MapIndex (KeyMapV m) key =
     Inl ''reflect.Value.MapIndex: value of type string is not assignable to the key type''"
| "MapIndex NilKeyMapV key =
     Inl ''reflect.Value.MapIndex: value of type string is not assignable to the key type''"
| "MapIndex _ key = Inl ''reflect: call of reflect.Value.MapIndex on a Value that is not a map''"

text \<open>
  \<^verbatim>\<open>reflect.Value.FieldByName\<close>: the field of that name, declared or promoted, if
  the struct type has one; a panic when the field is promoted through an embedded
  pointer that is nil; a panic on a value that is not a struct (getField calls it on
  structs only). The fields of \<^verbatim>\<open>time.Time\<close> are wall, ext and loc.
\<close>

fun FieldByName :: "val \<Rightarrow> string \<Rightarrow> panic + val option" where
  "FieldByName (StructV _ fs ps) name =
     (case map_of fs name of
        Some field \<Rightarrow> Inr (Some field)
      | None \<Rightarrow>
          if name \<in> set ps
          then Inl ''reflect: indirection through nil pointer to embedded struct''
          else Inr None)"
| "FieldByName (TimeV t) name =
     (if name \<in> {''wall'', ''ext'', ''loc''} then Inr (Some (TimeV t)) else Inr None)"
| "FieldByName _ name =
     Inl ''reflect: call of reflect.Value.FieldByName on a Value that is not a struct''"

text \<open>A field is exported when its name starts with an upper-case letter (ASCII
  names only). \<^verbatim>\<open>reflect.Value.Interface\<close> panics on a field that is not.\<close>

definition is_exported :: "string \<Rightarrow> bool" where
  "is_exported name = (case name of [] \<Rightarrow> False | c # _ \<Rightarrow> CHR ''A'' \<le> c \<and> c \<le> CHR ''Z'')"

definition getField :: "val \<Rightarrow> string \<Rightarrow> panic + val" where
  "getField item fieldName =
     (if item = NilV then Inr NilV
      else let itemVal = (if kind_of item = KPointer then Elem item else item) in
        case kind_of itemVal of
          KMap \<Rightarrow>
            (case MapIndex itemVal fieldName of
               Inl r \<Rightarrow> Inl r
             | Inr None \<Rightarrow> Inr NilV
             | Inr (Some valueVal) \<Rightarrow> Inr valueVal)
        | KStruct \<Rightarrow>
            (case FieldByName itemVal fieldName of
               Inl r \<Rightarrow> Inl r
             | Inr None \<Rightarrow> Inr NilV
             | Inr (Some field) \<Rightarrow>
                 if is_exported fieldName then Inr field
                 else Inl ''reflect.Value.Interface: cannot return value obtained from unexported field or method'')
        | _ \<Rightarrow> Inr NilV)"

section \<open>Queries and their evaluation\<close>

text \<open>
  A query is an \<^verbatim>\<open>interface{}\<close> too, and eval dispatches on its dynamic type:
  \<open>P f\<close> is a query of type \<^verbatim>\<open>P\<close> or \<^verbatim>\<open>func(interface{}) bool\<close>, a
  function that returns a boolean or panics; \<open>Q m\<close> is one of type \<^verbatim>\<open>Q\<close> or
  \<^verbatim>\<open>map[string]interface{}\<close>, its entries in the order in which the run time
  iterates the map on this evaluation (keys distinct); \<open>Lit v\<close> is a query of any
  other type, and \<open>Lit NilV\<close> is the nil query.
\<close>

datatype query =
    P "val \<Rightarrow> panic + bool"
  | Q "(string \<times> query) list"
  | Lit val

fun eval :: "query \<Rightarrow> val \<Rightarrow> panic + bool"
  and evalMapQuery :: "val \<Rightarrow> (string \<times> query) list \<Rightarrow> panic + bool"
where
  "eval (P q) value = q value"
| "eval (Q q) value = evalMapQuery value q"
| "eval (Lit q) value = (if q = NilV then Inr (isNil value) else isEqual value q)"
| "evalMapQuery item [] = Inr True"
| "evalMapQuery item (entry # rest) =
     (case (if fst entry = [] then Inr item else getField item (fst entry)) of
        Inl r \<Rightarrow> Inl r
      | Inr value \<Rightarrow>
          (case eval (snd entry) value of
             Inl r \<Rightarrow> Inl r
           | Inr ok \<Rightarrow> if \<not> ok then Inr False else evalMapQuery item rest))"

section \<open>operators.go\<close>

definition Eq :: "val \<Rightarrow> query" where
  "Eq val = P (\<lambda>v. isEqual v val)"

definition Gt :: "val \<Rightarrow> query" where
  "Gt threshold = P (\<lambda>v. Inr (0 < compareValues v threshold))"

definition Lt :: "val \<Rightarrow> query" where
  "Lt threshold = P (\<lambda>v. Inr (compareValues v threshold < 0))"

definition Gte :: "val \<Rightarrow> query" where
  "Gte threshold = P (\<lambda>v. Inr (0 \<le> compareValues v threshold))"

definition Lte :: "val \<Rightarrow> query" where
  "Lte threshold = P (\<lambda>v. Inr (compareValues v threshold \<le> 0))"

text \<open>The loops of Or and And over their arguments.\<close>

fun or_loop :: "query list \<Rightarrow> val \<Rightarrow> panic + bool" where
  "or_loop [] v = Inr False"
| "or_loop (val # vals) v =
     (case eval val v of
        Inl r \<Rightarrow> Inl r
      | Inr ok \<Rightarrow> if ok then Inr True else or_loop vals v)"

fun and_loop :: "query list \<Rightarrow> val \<Rightarrow> panic + bool" where
  "and_loop [] v = Inr True"
| "and_loop (p # predicates) v =
     (case eval p v of
        Inl r \<Rightarrow> Inl r
      | Inr ok \<Rightarrow> if \<not> ok then Inr False else and_loop predicates v)"

definition Or :: "query list \<Rightarrow> query" where
  "Or vals = P (\<lambda>v. or_loop vals v)"

definition And :: "query list \<Rightarrow> query" where
  "And predicates = P (\<lambda>v. and_loop predicates v)"

definition Not_q :: "query \<Rightarrow> query" where
  "Not_q p = P (\<lambda>v. case eval p v of Inl r \<Rightarrow> Inl r | Inr ok \<Rightarrow> Inr (\<not> ok))"

section \<open>Filter: the bulk mode\<close>

text \<open>Go's int has 64 bits on the platforms considered; \<^verbatim>\<open>skip+limit\<close> wraps.\<close>

definition wrap64 :: "int \<Rightarrow> int" where
  "wrap64 x = (x + 2 ^ 63) mod 2 ^ 64 - 2 ^ 63"

text \<open>The deferred function of Filter turns a panic into the error it returns.\<close>

definition recovered :: "panic \<Rightarrow> string" where
  "recovered r = ''panic during filtering: '' @ r"

fun is_nil_query :: "query \<Rightarrow> bool" where
  "is_nil_query (Lit v) = (v = NilV)"
| "is_nil_query _ = False"

text \<open>
  The loop of Filter over the records still to scan, with the counter and the result
  built so far. A panic leaves the loop; the named result keeps what was appended.
\<close>

fun scan :: "query \<Rightarrow> int \<Rightarrow> int \<Rightarrow> int \<Rightarrow> val list \<Rightarrow> val list \<Rightarrow> val list \<times> string option" where
  "scan query skip limit count result [] = (result, None)"
| "scan query skip limit count result (item # rest) =
     (case eval query item of
        Inl r \<Rightarrow> (result, Some (recovered r))
      | Inr ok \<Rightarrow>
          if ok then
            if count < skip then scan query skip limit (count + 1) result rest
            else let result' = result @ [item] in
              if 0 < limit \<and> limit \<le> int (length result') then (result', None)
              else scan query skip limit count result' rest
          else scan query skip limit count result rest)"

text \<open>The slice expression \<^verbatim>\<open>data[lo:hi]\<close> panics unless \<open>0 \<le> lo \<le> hi \<le> len\<close>.\<close>

definition slice_range :: "val list \<Rightarrow> int \<Rightarrow> int \<Rightarrow> panic + val list" where
  "slice_range data lo hi =
     (if 0 \<le> lo \<and> lo \<le> hi \<and> hi \<le> int (length data)
      then Inr (take (nat (hi - lo)) (drop (nat lo) data))
      else Inl ''runtime error: slice bounds out of range'')"

definition Filter :: "val list \<Rightarrow> query \<Rightarrow> int \<Rightarrow> int \<Rightarrow> val list \<times> string option" where
  "Filter data query skip limit =
     (if is_nil_query query then
        if skip = 0 \<and> (limit = 0 \<or> int (length data) \<le> limit) then (data, None)
        else case slice_range data (min skip (int (length data)))
                    (min (wrap64 (skip + limit)) (int (length data))) of
               Inl r \<Rightarrow> ([], Some (recovered r))
             | Inr s \<Rightarrow> (s, None)
      else scan query skip limit 0 [] data)"

section \<open>FilterC: the streaming mode\<close>

text \<open>
  The goroutine of FilterC reads the input channel item by item and sends on two
  channels. It is modelled on the list of the items the input delivers before it is
  closed, by the sequence of its sends, in order; both consumers are taken to drain
  their channel. The run ends at the end of the input or at the \<^verbatim>\<open>return\<close>.
\<close>

datatype event = Output val | Error string

definition recovered_item :: "panic \<Rightarrow> string" where
  "recovered_item r = ''panic during filter evaluation: '' @ r"

fun stage :: "query \<Rightarrow> int \<Rightarrow> int \<Rightarrow> int \<Rightarrow> int \<Rightarrow> val list \<Rightarrow> event list" where
  "stage query skip limit matched sent [] = []"
| "stage query skip limit matched sent (item # rest) =
     (case eval query item of
        Inl r \<Rightarrow> Error (recovered_item r) # stage query skip limit matched sent rest
      | Inr matches \<Rightarrow>
          if matches then
            if matched + 1 \<le> skip then stage query skip limit (matched + 1) sent rest
            else if 0 < limit \<and> limit \<le> sent then []
            else Output item # stage query skip limit (matched + 1) (sent + 1) rest
          else stage query skip limit matched sent rest)"

fun outputs :: "event list \<Rightarrow> val list" where
  "outputs [] = []"
| "outputs (Output x # es) = x # outputs es"
| "outputs (Error e # es) = outputs es"

fun errors :: "event list \<Rightarrow> string list" where
  "errors [] = []"
| "errors (Output x # es) = errors es"
| "errors (Error e # es) = e # errors es"

definition FilterC :: "val list \<Rightarrow> query \<Rightarrow> int \<Rightarrow> int \<Rightarrow> val list \<times> string list" where
  "FilterC input query skip limit =
     (let trace = stage query skip limit 0 0 input in (outputs trace, errors trace))"

section \<open>Notions of the specification\<close>

text \<open>The records of a sequence that match a query, in their order: those on which
  eval returns true.\<close>

definition matches :: "query \<Rightarrow> val list \<Rightarrow> val list" where
  "matches q xs = filter (\<lambda>x. eval q x = Inr True) xs"

text \<open>Evaluation raises no fault on any record of the sequence.\<close>

definition faultless :: "query \<Rightarrow> val list \<Rightarrow> bool" where
  "faultless q xs = list_all (\<lambda>x. \<not> isl (eval q x)) xs"

text \<open>The records before the first one whose evaluation raises a fault, and the
  value of that fault.\<close>

fun before_fault :: "query \<Rightarrow> val list \<Rightarrow> val list" where
  "before_fault q [] = []"
| "before_fault q (x # xs) = (case eval q x of Inl r \<Rightarrow> [] | Inr ok \<Rightarrow> x # before_fault q xs)"

fun first_fault :: "query \<Rightarrow> val list \<Rightarrow> panic option" where
  "first_fault q [] = None"
| "first_fault q (x # xs) = (case eval q x of Inl r \<Rightarrow> Some r | Inr ok \<Rightarrow> first_fault q xs)"

text \<open>The values of all faults of a sequence, in order.\<close>

fun faults :: "query \<Rightarrow> val list \<Rightarrow> panic list" where
  "faults q [] = []"
| "faults q (x # xs) = (case eval q x of Inl r \<Rightarrow> r # faults q xs | Inr ok \<Rightarrow> faults q xs)"

text \<open>Pagination of a sequence of matches: the first \<open>skip\<close> are discarded, then
  at most \<open>limit\<close> are kept, all of them when \<open>limit\<close> is not positive.\<close>

definition paginate :: "int \<Rightarrow> int \<Rightarrow> 'a list \<Rightarrow> 'a list" where
  "paginate skip limit ms =
     (let rest = drop (nat skip) ms in if 0 < limit then take (nat limit) rest else rest)"

text \<open>Both operands have the type of one fast path of compareValues: int, float64,
  string or time.Time.\<close>

definition same_fast_type :: "val \<Rightarrow> val \<Rightarrow> bool" where
  "same_fast_type a b =
     (case a of
        IntegerV ka _ \<Rightarrow> (case b of IntegerV kb _ \<Rightarrow> ka = intT \<and> kb = intT | _ \<Rightarrow> False)
      | FloatV ka _ \<Rightarrow> (case b of FloatV kb _ \<Rightarrow> ka = float64T \<and> kb = float64T | _ \<Rightarrow> False)
      | StringV _ \<Rightarrow> (case b of StringV _ \<Rightarrow> True | _ \<Rightarrow> False)
      | TimeV _ \<Rightarrow> (case b of TimeV _ \<Rightarrow> True | _ \<Rightarrow> False)
      | _ \<Rightarrow> False)"

text \<open>The value a map query tests for one entry: the whole current value for the
  empty field name, otherwise what the field accessor returns; and the result of
  evaluating the entry's subquery against it.\<close>

definition field_value :: "val \<Rightarrow> string \<Rightarrow> panic + val" where
  "field_value v field = (if field = [] then Inr v else getField v field)"

definition entry_eval :: "val \<Rightarrow> string \<times> query \<Rightarrow> panic + bool" where
  "entry_eval v e =
     (case field_value v (fst e) of Inl r \<Rightarrow> Inl r | Inr fv \<Rightarrow> eval (snd e) fv)"



text \<open>
  The values of the integer types (int, uint and uintptr with 64 bits) and of the
  floating types: a finite float32 or float64 is a rational whose denominator is a
  power of two within the exponent range, whose magnitude is within the range, and
  whose numerator has a significand of 24 or 53 bits.
\<close>

fun in_range :: "ikind \<Rightarrow> int \<Rightarrow> bool" where
  "in_range int8T n = (- (2 ^ 7) \<le> n \<and> n < 2 ^ 7)"
| "in_range int16T n = (- (2 ^ 15) \<le> n \<and> n < 2 ^ 15)"
| "in_range int32T n = (- (2 ^ 31) \<le> n \<and> n < 2 ^ 31)"
| "in_range int64T n = (- (2 ^ 63) \<le> n \<and> n < 2 ^ 63)"
| "in_range intT n = (- (2 ^ 63) \<le> n \<and> n < 2 ^ 63)"
| "in_range uint8T n = (0 \<le> n \<and> n < 2 ^ 8)"
| "in_range uint16T n = (0 \<le> n \<and> n < 2 ^ 16)"
| "in_range uint32T n = (0 \<le> n \<and> n < 2 ^ 32)"
| "in_range uint64T n = (0 \<le> n \<and> n < 2 ^ 64)"
| "in_range uintT n = (0 \<le> n \<and> n < 2 ^ 64)"
| "in_range uintptrT n = (0 \<le> n \<and> n < 2 ^ 64)"

definition is_pow2 :: "int \<Rightarrow> bool" where
  "is_pow2 b = (0 < b \<and> b = 2 ^ nat (bitlen b - 1))"

definition is_binary_float :: "nat \<Rightarrow> nat \<Rightarrow> nat \<Rightarrow> rat \<Rightarrow> bool" where
  "is_binary_float p dmax emax r =
     (case quotient_of r of
        (a, b) \<Rightarrow> is_pow2 b \<and> b \<le> 2 ^ dmax \<and> \<bar>a\<bar> < 2 ^ emax * b
                   \<and> round_nearest_even p a = a)"

fun well_formed :: "val \<Rightarrow> bool" where
  "well_formed (IntegerV k n) = in_range k n"
| "well_formed (FloatV float64T (Fin r)) = is_binary_float 53 1074 1024 r"
| "well_formed (FloatV float32T (Fin r)) = is_binary_float 24 149 128 r"
| "well_formed _ = True"

text \<open>The number an integer or a finite floating value denotes, and the values of
  the kinds whose equality is claimed to be numeric: all integer and floating kinds but
  uintptr.\<close>

fun numeric_value :: "val \<Rightarrow> rat option" where
  "numeric_value (IntegerV k n) = Some (of_int n)"
| "numeric_value (FloatV k (Fin r)) = Some r"
| "numeric_value _ = None"

fun widened :: "val \<Rightarrow> bool" where
  "widened (IntegerV k n) = (k \<noteq> uintptrT)"
| "widened (FloatV k x) = True"
| "widened _ = False"

section \<open>What the loop of Filter computes\<close>

text \<open>
  The loop, started with a result that has not reached the limit: it appends the
  matches among the records before the first fault, less those still to skip, and
  stops at the limit; short of the limit, it reports the first fault.
\<close>

lemma scan_spec:
  assumes "\<not> (0 < limit \<and> limit \<le> int (length result))"
  shows "scan q skip limit count result xs =
    (let avail = drop (nat (skip - count)) (matches q (before_fault q xs)) in
     if 0 < limit \<and> limit \<le> int (length result + length avail)
     then (result @ take (nat limit - length result) avail, None)
     else (result @ avail, map_option recovered (first_fault q xs)))"
  using assms
proof (induction xs arbitrary: count result)
  case Nil
  then show ?case by (simp add: matches_def)
next
  case (Cons x xs)
  show ?case
  proof (cases "eval q x")
    case (Inl r)
    with Cons.prems show ?thesis by (simp add: matches_def)
  next
    case (Inr ok)
    show ?thesis
    proof (cases ok)
      case False
      with Inr Cons.IH[OF Cons.prems] show ?thesis
        by (simp add: matches_def Let_def cong: if_cong)
    next
      case True
      show ?thesis
      proof (cases "count < skip")
        case skipping: True
        then have "nat (skip - count) = Suc (nat (skip - (count + 1)))" by simp
        with Inr True skipping Cons.IH[OF Cons.prems, of "count + 1"] show ?thesis
          by (simp add: matches_def Let_def cong: if_cong)
      next
        case appending: False
        then have z: "nat (skip - count) = 0" by simp
        show ?thesis
        proof (cases "0 < limit \<and> limit \<le> int (length (result @ [x]))")
          case stop: True
          with Cons.prems have "nat limit - length result = Suc 0" by auto
          with Inr True appending stop z show ?thesis
            by (simp add: matches_def Let_def cong: if_cong)
        next
          case go: False
          then have "nat limit - length result = Suc (nat limit - length (result @ [x]))
              \<or> \<not> 0 < limit"
            by auto
          with Inr True appending go z Cons.IH[OF go, of count] show ?thesis
            by (auto simp add: matches_def Let_def)
        qed
      qed
    qed
  qed
qed

lemma Filter_spec:
  assumes "\<not> is_nil_query q"
  shows "Filter data q skip limit =
    (let avail = drop (nat skip) (matches q (before_fault q data)) in
     if 0 < limit \<and> limit \<le> int (length avail) then (take (nat limit) avail, None)
     else (avail, map_option recovered (first_fault q data)))"
  using assms scan_spec[of limit "[]" q skip 0 data]
  by (simp add: Filter_def Let_def cong: if_cong)

lemma matches_append: "matches q (xs @ ys) = matches q xs @ matches q ys"
  by (simp add: matches_def)

lemma faultless_before_fault:
  "faultless q pre \<Longrightarrow> before_fault q (pre @ post) = pre @ before_fault q post"
  by (induction pre) (auto simp: faultless_def split: sum.splits)

lemma faultless_first_fault:
  "faultless q pre \<Longrightarrow> first_fault q (pre @ post) = first_fault q post"
  by (induction pre) (auto simp: faultless_def split: sum.splits)

lemma faultless_whole:
  "faultless q xs \<Longrightarrow> before_fault q xs = xs \<and> first_fault q xs = None"
  using faultless_before_fault[of q xs "[]"] faultless_first_fault[of q xs "[]"] by simp

section \<open>The empty conjunction and the empty disjunction\<close>

lemma and_loop_append:
  "and_loop (ps @ qs) v =
     (case and_loop ps v of Inl r \<Rightarrow> Inl r | Inr ok \<Rightarrow> if ok then and_loop qs v else Inr False)"
  by (induction ps) (auto split: sum.splits)

lemma or_loop_append:
  "or_loop (ps @ qs) v =
     (case or_loop ps v of Inl r \<Rightarrow> Inl r | Inr ok \<Rightarrow> if ok then Inr True else or_loop qs v)"
  by (induction ps) (auto split: sum.splits)

text \<open>
  C10. For every value, \<open>And []\<close> evaluates to true and \<open>Or []\<close> to false, and
  they are identities: adding \<open>And []\<close> to the arguments of a conjunction, in front
  or at the end, does not change its result (a boolean or a fault), and likewise
  \<open>Or []\<close> in a disjunction.
\<close>

theorem empty_And_Or_identity:
  "eval (And []) v = Inr True
   \<and> eval (Or []) v = Inr False
   \<and> eval (And (And [] # qs)) v = eval (And qs) v
   \<and> eval (And (qs @ [And []])) v = eval (And qs) v
   \<and> eval (Or (Or [] # qs)) v = eval (Or qs) v
   \<and> eval (Or (qs @ [Or []])) v = eval (Or qs) v"
  by (auto simp: And_def Or_def and_loop_append or_loop_append split: sum.splits)

section \<open>Filter with a query\<close>

text \<open>
  C6. For every query that is not nil, Filter scans the records in their order and
  counts those on which eval is true: when no evaluation faults, the result is the
  sequence of matches without its first \<open>skip\<close> elements, cut to \<open>limit\<close>
  elements when \<open>limit\<close> is positive (0 is unbounded), with no error; once a prefix
  of the records holds \<open>skip + limit\<close> matches the scan stops, whatever follows that
  prefix (records that match or whose evaluation would fault); and with five matches,
  skip 1 and limit 2 the result is the second and the third match.
\<close>

theorem Filter_scan_pagination:
  assumes "\<not> is_nil_query q"
  shows "(faultless q data \<longrightarrow>
            Filter data q skip limit = (paginate skip limit (matches q data), None))
       \<and> (faultless q pre \<and> 0 < limit
            \<and> limit \<le> int (length (drop (nat skip) (matches q pre))) \<longrightarrow>
            Filter (pre @ post) q skip limit
              = (take (nat limit) (drop (nat skip) (matches q pre)), None))
       \<and> (faultless q data \<and> matches q data = [m1, m2, m3, m4, m5] \<longrightarrow>
            Filter data q 1 2 = ([m2, m3], None))"
proof (intro conjI impI)
  assume "faultless q data"
  then show "Filter data q skip limit = (paginate skip limit (matches q data), None)"
    using Filter_spec[OF assms, of data skip limit] faultless_whole[of q data]
    by (auto simp: paginate_def Let_def)
next
  assume h: "faultless q pre \<and> 0 < limit
            \<and> limit \<le> int (length (drop (nat skip) (matches q pre)))"
  then have "nat limit \<le> length (drop (nat skip) (matches q pre))" by linarith
  then show "Filter (pre @ post) q skip limit
              = (take (nat limit) (drop (nat skip) (matches q pre)), None)"
    using h Filter_spec[OF assms, of "pre @ post" skip limit] faultless_before_fault[of q pre post]
    by (auto simp: Let_def matches_append)
next
  assume "faultless q data \<and> matches q data = [m1, m2, m3, m4, m5]"
  then show "Filter data q 1 2 = ([m2, m3], None)"
    using Filter_spec[OF assms, of data 1 2] faultless_whole[of q data]
    by (auto simp: Let_def)
qed

theorem Filter_scan_pagination_witness:
  "\<not> is_nil_query (Gt (IntegerV intT 80))
   \<and> faultless (Gt (IntegerV intT 80))
        [IntegerV intT 50, IntegerV intT 150, IntegerV intT 90, IntegerV intT 200,
         IntegerV intT 30, IntegerV intT 300, IntegerV intT 100]
   \<and> matches (Gt (IntegerV intT 80))
        [IntegerV intT 50, IntegerV intT 150, IntegerV intT 90, IntegerV intT 200,
         IntegerV intT 30, IntegerV intT 300, IntegerV intT 100]
       = [IntegerV intT 150, IntegerV intT 90, IntegerV intT 200, IntegerV intT 300,
          IntegerV intT 100]
   \<and> (0::int) < 2
   \<and> (2::int) \<le> int (length (drop (nat 1) (matches (Gt (IntegerV intT 80))
        [IntegerV intT 50, IntegerV intT 150, IntegerV intT 90, IntegerV intT 200])))
   \<and> Filter
        ([IntegerV intT 50, IntegerV intT 150, IntegerV intT 90, IntegerV intT 200]
          @ [IntegerV intT 30, IntegerV intT 300, IntegerV intT 100])
        (Gt (IntegerV intT 80)) 1 2
       = ([IntegerV intT 90, IntegerV intT 200], None)"
  using Filter_scan_pagination [of "Gt (IntegerV intT 80)"
      "[IntegerV intT 50, IntegerV intT 150, IntegerV intT 90, IntegerV intT 200,
         IntegerV intT 30, IntegerV intT 300, IntegerV intT 100]" 1 2
      "[IntegerV intT 50, IntegerV intT 150, IntegerV intT 90, IntegerV intT 200]"
      "[IntegerV intT 30, IntegerV intT 300, IntegerV intT 100]"
      "IntegerV intT 150" "IntegerV intT 90" "IntegerV intT 200" "IntegerV intT 300"
      "IntegerV intT 100"]
  by (simp add: Gt_def faultless_def matches_def compareValues_def fast_path_def three_way_def paginate_def)

text \<open>
  C4. For every query that is not nil: if the evaluation of a record \<open>x\<close> raises a
  fault, no record before it does, and the limit is not reached before it, then Filter
  returns the matches accumulated on the records before \<open>x\<close> (what it returns on
  those records alone) together with an error made from the fault, whatever records
  follow \<open>x\<close>: the scan does not resume.
\<close>

theorem Filter_fault_stops:
  assumes "\<not> is_nil_query q" and "faultless q pre" and "eval q x = Inl r"
    and "\<not> (0 < limit \<and> limit \<le> int (length (drop (nat skip) (matches q pre))))"
  shows "Filter (pre @ x # post) q skip limit
           = (drop (nat skip) (matches q pre), Some (recovered r))
       \<and> Filter pre q skip limit = (drop (nat skip) (matches q pre), None)"
proof -
  have b: "before_fault q (pre @ x # post) = pre"
    using assms(2,3) faultless_before_fault[of q pre "x # post"] by simp
  have f: "first_fault q (pre @ x # post) = Some r"
    using assms(2,3) faultless_first_fault[of q pre "x # post"] by simp
  show ?thesis
    using assms(4) b f Filter_spec[OF assms(1), of "pre @ x # post" skip limit]
      Filter_spec[OF assms(1), of pre skip limit] faultless_whole[OF assms(2)]
    by (simp add: Let_def)
qed

theorem Filter_fault_stops_witness:
  "\<not> is_nil_query (P (\<lambda>v. case v of IntegerV k n \<Rightarrow> Inr (0 < n) | _ \<Rightarrow> Inl ''not an int''))
   \<and> faultless (P (\<lambda>v. case v of IntegerV k n \<Rightarrow> Inr (0 < n) | _ \<Rightarrow> Inl ''not an int''))
        [IntegerV intT 1, IntegerV intT (- 2), IntegerV intT 3]
   \<and> eval (P (\<lambda>v. case v of IntegerV k n \<Rightarrow> Inr (0 < n) | _ \<Rightarrow> Inl ''not an int''))
        (StringV ''x'') = Inl ''not an int''
   \<and> Filter ([IntegerV intT 1, IntegerV intT (- 2), IntegerV intT 3]
               @ StringV ''x'' # [IntegerV intT 5])
        (P (\<lambda>v. case v of IntegerV k n \<Rightarrow> Inr (0 < n) | _ \<Rightarrow> Inl ''not an int'')) 1 0
       = ([IntegerV intT 3], Some ''panic during filtering: not an int'')"
  using Filter_fault_stops [of
      "P (\<lambda>v. case v of IntegerV k n \<Rightarrow> Inr (0 < n) | _ \<Rightarrow> Inl ''not an int'')"
      "[IntegerV intT 1, IntegerV intT (- 2), IntegerV intT 3]" "StringV ''x''"
      "''not an int''" 0 1 "[IntegerV intT 5]"]
  by (simp add: faultless_def matches_def recovered_def)

section \<open>Filter with the nil query\<close>

text \<open>
  C1. With the nil query, skip 1 and limit 0, Filter returns the empty range
  \<^verbatim>\<open>data[1:1]\<close> of three records, not the records from index 1 onward: the
  upper bound is \<^verbatim>\<open>min(skip+limit, len)\<close> also when limit is 0. With the empty
  map query, which matches every record, the same call returns the records from index
  1 onward.
\<close>

theorem Filter_nil_query_skip_without_limit:
  "Filter [IntegerV intT 1, IntegerV intT 2, IntegerV intT 3] (Lit NilV) 1 0 = ([], None)
   \<and> Filter [IntegerV intT 1, IntegerV intT 2, IntegerV intT 3] (Q []) 1 0
       = ([IntegerV intT 2, IntegerV intT 3], None)"
  by (simp add: Filter_def slice_range_def wrap64_def)

section \<open>FilterC\<close>

lemma stage_outputs:
  "outputs (stage q skip limit matched sent xs) =
     (let rest = drop (nat (skip - matched)) (matches q xs) in
      if 0 < limit then take (nat (limit - sent)) rest else rest)"
proof (induction xs arbitrary: matched sent)
  case Nil
  then show ?case by (simp add: matches_def)
next
  case (Cons x xs)
  show ?case
  proof (cases "eval q x")
    case (Inl r)
    then show ?thesis using Cons.IH[of matched sent] by (simp add: matches_def)
  next
    case (Inr ok)
    show ?thesis
    proof (cases "ok \<and> matched + 1 \<le> skip")
      case True
      then have "nat (skip - matched) = Suc (nat (skip - (matched + 1)))" by arith
      with True Inr Cons.IH[of "matched + 1" sent] show ?thesis
        by (simp add: matches_def Let_def cong: if_cong)
    next
      case False
      show ?thesis
      proof (cases ok)
        case no: False
        with Inr Cons.IH[of matched sent] show ?thesis by (simp add: matches_def)
      next
        case yes: True
        with False have z: "nat (skip - matched) = 0" "nat (skip - (matched + 1)) = 0" by simp_all
        have "0 < limit \<Longrightarrow> \<not> limit \<le> sent \<Longrightarrow> nat (limit - sent) = Suc (nat (limit - (sent + 1)))"
          by simp
        with yes False Inr z Cons.IH[of "matched + 1" "sent + 1"] show ?thesis
          by (auto simp add: matches_def Let_def)
      qed
    qed
  qed
qed

lemma stage_errors_prefix:
  "prefix (errors (stage q skip limit matched sent xs)) (map recovered_item (faults q xs))"
  by (induction xs arbitrary: matched sent) (auto split: sum.splits)

lemma stage_errors_all:
  "limit \<le> 0 \<Longrightarrow> errors (stage q skip limit matched sent xs) = map recovered_item (faults q xs)"
  by (induction xs arbitrary: matched sent) (auto split: sum.splits)

lemma subseq_paginate: "subseq (paginate skip limit (matches q xs)) xs"
proof -
  have "subseq (paginate skip limit ms) ms" for ms :: "val list"
    using subseq_order.trans[of "take (nat limit) (drop (nat skip) ms)" "drop (nat skip) ms" ms]
    by (simp add: paginate_def Let_def sublist_imp_subseq)
  then show ?thesis
    using subseq_order.trans[of _ "matches q xs" xs] by (simp add: matches_def)
qed

text \<open>
  C5. In the streaming mode a fault on one item is isolated: the stage sends exactly
  one error for it, sends no output for it and leaves its counters as they were, and
  goes on with the following items. So the outputs are the matches (the items on which
  eval returns true), paginated: an order-preserving subsequence of the input; the
  errors are, in order, those of the faulting items the stage has read, all of them
  when there is no limit; and for three items of which only the second faults and the
  others match, without pagination, the outputs are the first and the third item and
  there is exactly one error.
\<close>

theorem FilterC_fault_isolation:
  "fst (FilterC input q skip limit) = paginate skip limit (matches q input)
   \<and> subseq (fst (FilterC input q skip limit)) input
   \<and> prefix (snd (FilterC input q skip limit)) (map recovered_item (faults q input))
   \<and> (limit \<le> 0 \<longrightarrow> snd (FilterC input q skip limit) = map recovered_item (faults q input))
   \<and> (eval q x = Inl r \<longrightarrow>
        stage q skip limit matched sent (x # rest)
          = Error (recovered_item r) # stage q skip limit matched sent rest)
   \<and> (eval q i1 = Inr True \<and> eval q i2 = Inl r \<and> eval q i3 = Inr True \<longrightarrow>
        FilterC [i1, i2, i3] q 0 0 = ([i1, i3], [recovered_item r]))"
proof -
  have o: "fst (FilterC input q skip limit) = paginate skip limit (matches q input)"
    by (simp add: FilterC_def stage_outputs paginate_def Let_def)
  show ?thesis
    using o subseq_paginate[of skip limit q input] stage_errors_prefix[of q skip limit 0 0 input]
      stage_errors_all[of limit q skip 0 0 input]
    by (auto simp: FilterC_def Let_def)
qed

theorem FilterC_fault_isolation_witness:
  "eval (P (\<lambda>v. case v of IntegerV k n \<Rightarrow> Inr (0 < n) | _ \<Rightarrow> Inl ''not an int''))
        (StringV ''x'') = Inl ''not an int''
   \<and> FilterC [IntegerV intT 1, StringV ''x'', IntegerV intT 3]
        (P (\<lambda>v. case v of IntegerV k n \<Rightarrow> Inr (0 < n) | _ \<Rightarrow> Inl ''not an int'')) 0 0
       = ([IntegerV intT 1, IntegerV intT 3], [''panic during filter evaluation: not an int''])"
  using FilterC_fault_isolation [of "[IntegerV intT 1, StringV ''x'', IntegerV intT 3]"
      "P (\<lambda>v. case v of IntegerV k n \<Rightarrow> Inr (0 < n) | _ \<Rightarrow> Inl ''not an int'')"
      0 0 "StringV ''x''" "''not an int''" 0 0 "[]"
      "IntegerV intT 1" "StringV ''x''" "IntegerV intT 3"]
  by (simp add: recovered_item_def)

section \<open>Ordering of values that are not comparable\<close>

lemma fast_path_None: "\<not> same_fast_type a b \<Longrightarrow> fast_path a b = None"
  by (auto simp: fast_path_def same_fast_type_def split: val.splits)

text \<open>
  C3. For every pair of non-nil values to which no same-type fast path (int, float64,
  string, time.Time) applies and of which at least one is not a number for toNumber,
  compareValues reports less (\<open>- 1\<close>); so \<open>Lt b\<close> evaluates to true on \<open>a\<close>
  and \<open>Gt b\<close> to false.
\<close>

theorem incomparable_order_less:
  assumes "a \<noteq> NilV" and "b \<noteq> NilV" and "\<not> same_fast_type a b"
    and "toNumber a = None \<or> toNumber b = None"
  shows "compareValues a b = - 1 \<and> eval (Lt b) a = Inr True \<and> eval (Gt b) a = Inr False"
  using assms fast_path_None[of a b]
  by (auto simp: compareValues_def Lt_def Gt_def split: option.splits)

theorem incomparable_order_less_witness:
  "StringV ''abc'' \<noteq> NilV \<and> IntegerV intT 5 \<noteq> NilV
   \<and> \<not> same_fast_type (StringV ''abc'') (IntegerV intT 5)
   \<and> toNumber (StringV ''abc'') = None
   \<and> compareValues (StringV ''abc'') (IntegerV intT 5) = - 1
   \<and> eval (Lt (IntegerV intT 5)) (StringV ''abc'') = Inr True
   \<and> eval (Gt (IntegerV intT 5)) (StringV ''abc'') = Inr False"
  using incomparable_order_less [of "StringV ''abc''" "IntegerV intT 5"]
  by (simp add: same_fast_type_def toNumber_def)

section \<open>The evaluator\<close>


lemma evalMapQuery_Cons:
  "evalMapQuery v (e # m) =
     (case entry_eval v e of Inl r \<Rightarrow> Inl r
      | Inr ok \<Rightarrow> if ok then evalMapQuery v m else Inr False)"
  by (auto simp: entry_eval_def field_value_def split: sum.splits)

lemma evalMapQuery_first_false:
  "list_all (\<lambda>e. entry_eval v e = Inr True) pre \<Longrightarrow> entry_eval v e = Inr False
   \<Longrightarrow> evalMapQuery v (pre @ e # post) = Inr False"
  by (induction pre) (simp_all add: evalMapQuery_Cons del: evalMapQuery.simps(2))

lemma evalMapQuery_all:
  "list_all (\<lambda>e. \<not> isl (entry_eval v e)) m
   \<Longrightarrow> evalMapQuery v m = Inr (list_all (\<lambda>e. entry_eval v e = Inr True) m)"
  by (induction m) (auto simp add: evalMapQuery_Cons simp del: evalMapQuery.simps(2) split: sum.splits)

text \<open>
  C7. For every map query and value: the empty map query matches; a map query
  evaluates its entries in turn, each by resolving the field value (the whole value for
  the empty field name, otherwise through getField) and evaluating the subquery
  against it; the first entry that fails makes the result false, whatever entries
  follow; and when no entry faults the result is the conjunction over all entries,
  so it does not depend on the order of the entries.
\<close>

theorem evalMapQuery_implicit_and:
  "eval (Q []) v = Inr True
   \<and> eval (Q (e # m)) v =
       (case entry_eval v e of Inl r \<Rightarrow> Inl r
        | Inr ok \<Rightarrow> if ok then eval (Q m) v else Inr False)
   \<and> (list_all (\<lambda>e. entry_eval v e = Inr True) pre \<and> entry_eval v bad = Inr False \<longrightarrow>
        eval (Q (pre @ bad # post)) v = Inr False)
   \<and> (list_all (\<lambda>e. \<not> isl (entry_eval v e)) m \<longrightarrow>
        eval (Q m) v = Inr (list_all (\<lambda>e. entry_eval v e = Inr True) m))"
  using evalMapQuery_Cons[of v e m] evalMapQuery_first_false[of v pre bad post]
    evalMapQuery_all[of v m]
  by (simp del: evalMapQuery.simps(2) cong: sum.case_cong if_cong)

theorem evalMapQuery_implicit_and_witness:
  "list_all (\<lambda>e. entry_eval (MapV [(''price'', IntegerV intT 150), (''name'', StringV ''x'')]) e = Inr True)
      [(''price'', Gt (IntegerV intT 80))]
   \<and> entry_eval (MapV [(''price'', IntegerV intT 150), (''name'', StringV ''x'')])
        (''name'', Lit (StringV ''y'')) = Inr False
   \<and> eval (Q ([(''price'', Gt (IntegerV intT 80))] @ (''name'', Lit (StringV ''y''))
               # [([], P (\<lambda>v. Inl ''boom''))]))
        (MapV [(''price'', IntegerV intT 150), (''name'', StringV ''x'')]) = Inr False
   \<and> list_all (\<lambda>e. \<not> isl (entry_eval (MapV [(''price'', IntegerV intT 150), (''name'', StringV ''x'')]) e))
        [(''name'', Lit (StringV ''x''))]
   \<and> eval (Q ((''price'', Gt (IntegerV intT 80)) # [(''name'', Lit (StringV ''x''))]))
        (MapV [(''price'', IntegerV intT 150), (''name'', StringV ''x'')]) = Inr True"
  using evalMapQuery_implicit_and [of "MapV [(''price'', IntegerV intT 150), (''name'', StringV ''x'')]"
      "(''price'', Gt (IntegerV intT 80))" "[(''name'', Lit (StringV ''x''))]"
      "[(''price'', Gt (IntegerV intT 80))]" "(''name'', Lit (StringV ''y''))"
      "[([], P (\<lambda>v. Inl ''boom''))]"]
  by (simp add: entry_eval_def field_value_def getField_def Gt_def compareValues_def
      fast_path_def three_way_def isEqual_def toNumber_def isUncomparable_def go_eq_def type_of_def)

section \<open>The field accessor returns nil for what is absent\<close>








section \<open>Numeric equality\<close>

lemma round_small: "\<bar>n\<bar> < 2 ^ p \<Longrightarrow> round_nearest_even p n = n"
  using bitlen_le_iff_power[of "\<bar>n\<bar>" "int p"]
  by (simp add: round_nearest_even_def Let_def)

lemma round_fixed_dvd:
  assumes "round_nearest_even p n = n"
  shows "2 ^ nat (bitlen \<bar>n\<bar> - int p) dvd n"
proof (cases "nat (bitlen \<bar>n\<bar> - int p) = 0")
  case True
  then show ?thesis by simp
next
  case False
  define sh where "sh = nat (bitlen \<bar>n\<bar> - int p)"
  define q where "q = (if 2 ^ (sh - 1) < \<bar>n\<bar> mod 2 ^ sh
      \<or> (\<bar>n\<bar> mod 2 ^ sh = 2 ^ (sh - 1) \<and> odd (\<bar>n\<bar> div 2 ^ sh))
    then \<bar>n\<bar> div 2 ^ sh + 1 else \<bar>n\<bar> div 2 ^ sh)"
  have "round_nearest_even p n = (if sh = 0 then n else sgn n * (q * 2 ^ sh))"
    by (simp only: round_nearest_even_def Let_def sh_def q_def)
  with assms False have "n = sgn n * (q * 2 ^ sh)"
    by (simp only: sh_def[symmetric] if_False)
  then have "n = (sgn n * q) * 2 ^ sh" by (simp add: mult.assoc)
  then have "2 ^ sh dvd n" by (metis dvd_triv_right)
  then show ?thesis by (simp add: sh_def)
qed

lemma round_dvd_fixed:
  assumes "2 ^ nat (bitlen \<bar>n\<bar> - int p) dvd n"
  shows "round_nearest_even p n = n"
proof (cases "nat (bitlen \<bar>n\<bar> - int p) = 0")
  case True
  then show ?thesis by (simp add: round_nearest_even_def Let_def)
next
  case False
  define sh where "sh = nat (bitlen \<bar>n\<bar> - int p)"
  from assms have d: "(2::int) ^ sh dvd \<bar>n\<bar>" by (simp add: sh_def)
  then have m: "\<bar>n\<bar> mod 2 ^ sh = 0" by simp
  have h: "(0::int) < 2 ^ (sh - 1)" by simp
  from d have "\<bar>n\<bar> div 2 ^ sh * 2 ^ sh = \<bar>n\<bar>" by simp
  then have "sgn n * (\<bar>n\<bar> div 2 ^ sh * 2 ^ sh) = n" by (simp add: mult_sgn_abs)
  with False m h show ?thesis
    by (simp add: round_nearest_even_def Let_def sh_def[symmetric])
qed

lemma round_fixed_mono:
  assumes "round_nearest_even p n = n" and "p \<le> p'"
  shows "round_nearest_even p' n = n"
proof -
  have "nat (bitlen \<bar>n\<bar> - int p') \<le> nat (bitlen \<bar>n\<bar> - int p)" using assms(2) by simp
  then have "(2::int) ^ nat (bitlen \<bar>n\<bar> - int p') dvd 2 ^ nat (bitlen \<bar>n\<bar> - int p)"
    by (rule le_imp_power_dvd)
  then have "2 ^ nat (bitlen \<bar>n\<bar> - int p') dvd n"
    using round_fixed_dvd[OF assms(1)] by (rule dvd_trans)
  then show ?thesis by (rule round_dvd_fixed)
qed

lemma toNumber_widened_int:
  "k \<noteq> uintptrT \<Longrightarrow> toNumber (IntegerV k n) = Some (float64_of_int n)"
  by (cases k) (simp_all add: toNumber_def)

lemma toNumber_float: "toNumber (FloatV k x) = Some x"
  by (simp add: toNumber_def)

lemma float_of_int_exact:
  assumes "well_formed (FloatV k (Fin (of_int n)))"
  shows "float64_of_int n = Fin (of_int n)"
proof -
  have "round_nearest_even 53 n = n"
  proof (cases k)
    case float32T
    with assms have "round_nearest_even 24 n = n" by (simp add: is_binary_float_def)
    then show ?thesis by (rule round_fixed_mono) simp
  next
    case float64T
    with assms show ?thesis by (simp add: is_binary_float_def)
  qed
  then show ?thesis by (simp add: float64_of_int_def)
qed

lemma isEqual_numbers:
  "toNumber a = Some x \<Longrightarrow> toNumber b = Some y \<Longrightarrow> isEqual a b = Inr (f64_eq x y)"
  by (auto simp: isEqual_def toNumber_def)

lemma widened_toNumber:
  assumes "well_formed v" and "widened v" and "numeric_value v = Some r"
    and "well_formed w" and "widened w" and "numeric_value w = Some r"
  shows "toNumber v = toNumber w \<and> (\<exists>x. toNumber v = Some (Fin x))"
proof (cases v)
  case v: (IntegerV k n)
  show ?thesis
  proof (cases w)
    case (IntegerV kw nw)
    with v assms(3,6) have "rat_of_int n = rat_of_int nw" by simp
    then have "n = nw" by simp
    with v IntegerV assms(2,5) show ?thesis
      by (simp add: toNumber_widened_int float64_of_int_def)
  next
    case (FloatV kw xw)
    with v assms(3,4,6) have "well_formed (FloatV kw (Fin (of_int n)))" and "xw = Fin (of_int n)"
      by (cases xw; simp)+
    with float_of_int_exact[of kw n] v FloatV assms(2) show ?thesis
      by (simp add: toNumber_widened_int toNumber_float)
  qed (use assms in simp_all)
next
  case v: (FloatV k x)
  show ?thesis
  proof (cases w)
    case (IntegerV kw nw)
    with v assms(1,3,6) have "well_formed (FloatV k (Fin (of_int nw)))" and "x = Fin (of_int nw)"
      by (cases x; simp)+
    with float_of_int_exact[of k nw] v IntegerV assms(5) show ?thesis
      by (simp add: toNumber_widened_int toNumber_float)
  next
    case (FloatV kw xw)
    with v assms(3,6) show ?thesis
      by (cases x; cases xw; simp add: toNumber_float)
  qed (use assms in simp_all)
qed (use assms in simp_all)

text \<open>
  C8, as the code has it. For every two values of an integer kind other than uintptr
  or of a floating kind that denote the same number, isEqual returns true: toNumber
  widens both to float64 and the two conversions agree. In particular
  \<^verbatim>\<open>isEqual(3, 3.0)\<close> and \<^verbatim>\<open>isEqual(int8(3), uint64(3))\<close> are true.
\<close>

theorem isEqual_same_number:
  assumes "well_formed a" and "well_formed b" and "widened a" and "widened b"
    and "numeric_value a = Some r" and "numeric_value b = Some r"
  shows "isEqual a b = Inr True
    \<and> isEqual (IntegerV intT 3) (FloatV float64T (Fin 3)) = Inr True
    \<and> isEqual (IntegerV int8T 3) (IntegerV uint64T 3) = Inr True"
proof -
  from widened_toNumber[OF assms(1,3,5,2,4,6)]
  obtain x where "toNumber a = Some (Fin x)" and "toNumber b = Some (Fin x)" by metis
  then have "isEqual a b = Inr True" by (simp add: isEqual_numbers)
  moreover have "float64_of_int 3 = Fin 3"
    using round_small[of 3 53] by (simp add: float64_of_int_def)
  then have "isEqual (IntegerV intT 3) (FloatV float64T (Fin 3)) = Inr True"
    by (simp add: isEqual_numbers[of _ "Fin 3" _ "Fin 3"] toNumber_widened_int toNumber_float)
  moreover have "isEqual (IntegerV int8T 3) (IntegerV uint64T 3) = Inr True"
    by (simp add: isEqual_numbers[of _ "float64_of_int 3" _ "float64_of_int 3"]
        toNumber_widened_int float64_of_int_def)
  ultimately show ?thesis by simp
qed

theorem isEqual_same_number_witness:
  "well_formed (IntegerV int64T 9007199254740992)
   \<and> well_formed (FloatV float64T (Fin 9007199254740992))
   \<and> widened (IntegerV int64T 9007199254740992)
   \<and> widened (FloatV float64T (Fin 9007199254740992))
   \<and> numeric_value (IntegerV int64T 9007199254740992) = Some 9007199254740992
   \<and> numeric_value (FloatV float64T (Fin 9007199254740992)) = Some 9007199254740992
   \<and> isEqual (IntegerV int64T 9007199254740992) (FloatV float64T (Fin 9007199254740992))
       = Inr True"
proof -
  have b: "bitlen 9007199254740992 = 54" "bitlen 1 = 1"
    using bitlen_twopow_add_eq[of 0 53] bitlen_twopow_add_eq[of 0 0] by simp_all
  have w: "well_formed (FloatV float64T (Fin 9007199254740992))"
    using round_dvd_fixed[of 9007199254740992 53]
    by (simp add: is_binary_float_def is_pow2_def b)
  show ?thesis
    using w isEqual_same_number [of "IntegerV int64T 9007199254740992"
        "FloatV float64T (Fin 9007199254740992)" 9007199254740992]
    by simp
qed

text \<open>
  C8, as stated, fails for uintptr: toNumber does not widen the kind Uintptr, so
  \<^verbatim>\<open>isEqual(uintptr(3), 3)\<close> falls through to reflect.DeepEqual on values of
  two types, which is false.
\<close>

theorem isEqual_uintptr_not_widened:
  "well_formed (IntegerV uintptrT 3) \<and> well_formed (IntegerV intT 3)
   \<and> numeric_value (IntegerV uintptrT 3) = numeric_value (IntegerV intT 3)
   \<and> isEqual (IntegerV uintptrT 3) (IntegerV intT 3) = Inr False"
  by (simp add: isEqual_def toNumber_def isUncomparable_def deep_equal_def)

end
